theory Spec2Isabelle
  imports Main "HOL-Library.AList"
begin

section \<open>Strings and the two validation patterns\<close>

text \<open>
  A JavaScript string is a sequence of UTF-16 code units; a regular expression without
  the \<open>u\<close> flag matches code unit by code unit. A string is therefore a list of code
  units, each a natural number. \<open>js\<close> turns an ASCII literal into such a list.
\<close>

type_synonym jsstring = "nat list"

definition js :: "string \<Rightarrow> jsstring" where
  "js s = map of_char s"

type_synonym cls = "nat \<Rightarrow> bool"

text \<open>\<open>[0-9]\<close>\<close>

definition digit :: cls where
  "digit c = (48 \<le> c \<and> c \<le> 57)"

text \<open>
  \<open>\s\<close>: the ECMAScript WhiteSpace and LineTerminator code points (tab, line feed,
  vertical tab, form feed, carriage return, space, no-break space, U+1680,
  U+2000 to U+200A, U+2028, U+2029, U+202F, U+205F, U+3000, U+FEFF).
\<close>

definition whitespace :: cls where
  "whitespace c =
     (c \<in> set [9, 10, 11, 12, 13, 32, 160, 5760, 8232, 8233, 8239, 8287, 12288, 65279]
      \<or> (8192 \<le> c \<and> c \<le> 8202))"

text \<open>\<open>[\+]\<close>, \<open>[(]\<close>, \<open>[)]\<close>, \<open>@\<close>, \<open>\.\<close>\<close>

definition plusSign :: cls where "plusSign c = (c = 43)"
definition openParen :: cls where "openParen c = (c = 40)"
definition closeParen :: cls where "closeParen c = (c = 41)"
definition atSign :: cls where "atSign c = (c = 64)"
definition dot :: cls where "dot c = (c = 46)"

text \<open>\<open>[-\s\.]\<close>\<close>

definition separator :: cls where
  "separator c = (c = 45 \<or> whitespace c \<or> c = 46)"

text \<open>\<open>[^\s@]\<close>\<close>

definition notSpaceNorAt :: cls where
  "notSpaceNorAt c = (if whitespace c then False else c \<noteq> 64)"

text \<open>
  Both patterns of \<open>validateForm\<close> are sequences of character classes under a
  quantifier: \<open>Between m n c\<close> is \<open>c{m,n}\<close> (so \<open>c\<close> alone is \<open>Between 1 1 c\<close>,
  \<open>c?\<close> is \<open>Between 0 1 c\<close>, \<open>c{3}\<close> is \<open>Between 3 3 c\<close>) and \<open>AtLeast m c\<close> is
  \<open>c{m,}\<close> (so \<open>c+\<close> is \<open>AtLeast 1 c\<close>).
\<close>

datatype atom = Between nat nat cls | AtLeast nat cls

text \<open>
  \<open>spans c s\<close> lists what is left of \<open>s\<close> after reading 0, 1, 2, ... leading code
  units of class \<open>c\<close>. \<open>matchAtom\<close> keeps the remainders that the quantifier allows and
  \<open>matchSeq\<close> the remainders after the whole sequence: every way the backtracking matcher
  can get through the pattern. Both patterns are anchored with \<open>^\<close> and \<open>$\<close> (no
  \<open>m\<close> flag), so \<open>RegExp.prototype.test\<close> succeeds when some way leaves nothing.
\<close>

fun spans :: "cls \<Rightarrow> jsstring \<Rightarrow> jsstring list" where
  "spans c [] = [[]]"
| "spans c (x # xs) = (x # xs) # (if c x then spans c xs else [])"

fun matchAtom :: "atom \<Rightarrow> jsstring \<Rightarrow> jsstring list" where
  "matchAtom (Between m n c) s = take (Suc n - m) (drop m (spans c s))"
| "matchAtom (AtLeast m c) s = drop m (spans c s)"

fun matchSeq :: "atom list \<Rightarrow> jsstring \<Rightarrow> jsstring list" where
  "matchSeq [] s = [s]"
| "matchSeq (a # as) s = concat (map (matchSeq as) (matchAtom a s))"

definition test :: "atom list \<Rightarrow> jsstring \<Rightarrow> bool" where
  "test r s = ([] \<in> set (matchSeq r s))"

text \<open>\<open>/^[\+]?[(]?[0-9]{3}[)]?[-\s\.]?[0-9]{3}[-\s\.]?[0-9]{4,6}$/\<close>\<close>

definition phoneRegex :: "atom list" where
  "phoneRegex =
     [Between 0 1 plusSign, Between 0 1 openParen, Between 3 3 digit, Between 0 1 closeParen,
      Between 0 1 separator, Between 3 3 digit, Between 0 1 separator, Between 4 6 digit]"

text \<open>\<open>/^[^\s@]+@[^\s@]+\.[^\s@]+$/\<close>\<close>

definition emailRegex :: "atom list" where
  "emailRegex =
     [AtLeast 1 notSpaceNorAt, Between 1 1 atSign, AtLeast 1 notSpaceNorAt, Between 1 1 dot,
      AtLeast 1 notSpaceNorAt]"

section \<open>The component's state\<close>

text \<open>
  \<open>interface FormData\<close>: six strings. The computed key of \<open>handleChange\<close> can be any
  string, so an object of this state may also carry other properties: \<open>extra\<close> keeps
  them, in insertion order.
\<close>

record FormData =
  firstname :: jsstring
  lastname :: jsstring
  email :: jsstring
  phone :: jsstring
  service :: jsstring
  message :: jsstring
  extra :: "(jsstring \<times> jsstring) list"

datatype status_t = Idle | Sending | Success | Error

text \<open>The two callbacks handed to \<open>setTimeout\<close>.\<close>

datatype callback =
    SetIdle             \<comment> \<open>\<open>() => { setStatus('idle'); }\<close>\<close>
  | SetIdleClearError   \<comment> \<open>\<open>() => { setStatus('idle'); setErrorMessage(''); }\<close>\<close>

text \<open>\<open>import.meta.env\<close>: a variable that is not set reads as \<open>undefined\<close> (\<open>None\<close>).\<close>

record env =
  PUBLIC_EMAILJS_PUBLIC_KEY :: "jsstring option"
  PUBLIC_EMAILJS_SERVICE_ID :: "jsstring option"
  PUBLIC_EMAILJS_TEMPLATE_ID :: "jsstring option"

text \<open>One invocation of \<open>emailjs.send(serviceID, templateID, templateParams)\<close>.\<close>

record call =
  serviceID :: "jsstring option"
  templateID :: "jsstring option"
  params :: "(jsstring \<times> jsstring) list"

text \<open>
  How the promise of \<open>emailjs.send\<close> settles: resolved with a response whose
  \<open>status\<close> is the given number, or rejected (or thrown) with an error value.
\<close>

datatype outcome = Resolved int | Rejected jsstring

text \<open>
  The three \<open>useState\<close> cells, and what the component has done to the outside:
  \<open>sent\<close> is the log of \<open>emailjs.send\<close> invocations, \<open>timers\<close> the pending
  \<open>setTimeout\<close> requests (delay in milliseconds, callback) and \<open>console\<close> the error
  values given to \<open>console.error\<close>.
\<close>

record component =
  formData :: FormData
  status :: status_t
  errorMessage :: jsstring
  sent :: "call list"
  timers :: "(nat \<times> callback) list"
  console :: "jsstring list"

definition emptyForm :: FormData where
  "emptyForm = \<lparr>firstname = [], lastname = [], email = [], phone = [], service = [],
     message = [], extra = []\<rparr>"

definition initial :: component where
  "initial = \<lparr>formData = emptyForm, status = Idle, errorMessage = [], sent = [],
     timers = [], console = []\<rparr>"

section \<open>handleChange\<close>

text \<open>
  \<open>setFormData(prev => ({ ...prev, [name]: value }))\<close>: the property called \<open>name\<close>
  gets the value; a name that is none of the six becomes (or updates) another property.
\<close>

definition setField :: "jsstring \<Rightarrow> jsstring \<Rightarrow> FormData \<Rightarrow> FormData" where
  "setField name v prev =
     (if name = js ''firstname'' then prev\<lparr>firstname := v\<rparr>
      else if name = js ''lastname'' then prev\<lparr>lastname := v\<rparr>
      else if name = js ''email'' then prev\<lparr>email := v\<rparr>
      else if name = js ''phone'' then prev\<lparr>phone := v\<rparr>
      else if name = js ''service'' then prev\<lparr>service := v\<rparr>
      else if name = js ''message'' then prev\<lparr>message := v\<rparr>
      else prev\<lparr>extra := AList.update name v (extra prev)\<rparr>)"

definition handleChange :: "jsstring \<Rightarrow> jsstring \<Rightarrow> component \<Rightarrow> component" where
  "handleChange name v w = w\<lparr>formData := setField name v (formData w)\<rparr>"

section \<open>validateForm\<close>

text \<open>The three messages; 233 is U+00E9, the accented e of the French text.\<close>

definition phoneInvalidMessage :: jsstring where
  "phoneInvalidMessage =
     js ''Num'' @ [233] @ js ''ro de t'' @ [233] @ js ''l'' @ [233] @ js ''phone invalide''"

definition emailInvalidMessage :: jsstring where
  "emailInvalidMessage = js ''Email invalide''"

definition deliveryFailedMessage :: jsstring where
  "deliveryFailedMessage =
     js ''Une erreur est survenue. Veuillez r'' @ [233] @ js ''essayer.''"

text \<open>The result is the returned boolean and the state after the \<open>setErrorMessage\<close>.\<close>

definition validateForm :: "component \<Rightarrow> bool \<times> component" where
  "validateForm w =
     (if \<not> test phoneRegex (phone (formData w))
        then (False, w\<lparr>errorMessage := phoneInvalidMessage\<rparr>)
      else if \<not> test emailRegex (email (formData w))
        then (False, w\<lparr>errorMessage := emailInvalidMessage\<rparr>)
      else (True, w))"

section \<open>handleSubmit\<close>

text \<open>The properties of the \<open>formData\<close> object, as \<open>...formData\<close> spreads them.\<close>

definition props :: "FormData \<Rightarrow> (jsstring \<times> jsstring) list" where
  "props fd =
     [(js ''firstname'', firstname fd), (js ''lastname'', lastname fd), (js ''email'', email fd),
      (js ''phone'', phone fd), (js ''service'', service fd), (js ''message'', message fd)]
     @ extra fd"

text \<open>
  \<open>{ ...formData, date: ..., to_email: 'contact@evakech.com', reply_to: formData.email }\<close>;
  \<open>now\<close> is what \<open>new Date().toLocaleString('fr-FR')\<close> returns. A later property of an
  object literal replaces an earlier one of the same name and keeps its place.
\<close>

definition templateParams :: "jsstring \<Rightarrow> FormData \<Rightarrow> (jsstring \<times> jsstring) list" where
  "templateParams now fd =
     AList.update (js ''reply_to'') (email fd)
       (AList.update (js ''to_email'') (js ''contact@evakech.com'')
         (AList.update (js ''date'') now (props fd)))"

definition mkCall :: "env \<Rightarrow> jsstring \<Rightarrow> FormData \<Rightarrow> call" where
  "mkCall e now fd =
     \<lparr>serviceID = PUBLIC_EMAILJS_SERVICE_ID e, templateID = PUBLIC_EMAILJS_TEMPLATE_ID e,
      params = templateParams now fd\<rparr>"

text \<open>
  \<open>handleSubmit\<close> is asynchronous. \<open>handleSubmit_sync\<close> is its run up to the
  \<open>await\<close>: it returns the state, and the call it is waiting for if it made one.
\<close>

definition handleSubmit_sync :: "env \<Rightarrow> jsstring \<Rightarrow> component \<Rightarrow> component \<times> call option" where
  "handleSubmit_sync e now w =
     (let w1 = w\<lparr>errorMessage := []\<rparr>;
          (ok, w2) = validateForm w1
      in if \<not> ok then (w2\<lparr>status := Error\<rparr>, None)
         else let w3 = w2\<lparr>status := Sending\<rparr>;
                  c = mkCall e now (formData w)
              in (w3\<lparr>sent := sent w3 @ [c]\<rparr>, Some c))"

text \<open>\<open>handleSubmit_settled\<close> is the rest of it, once the promise has settled.\<close>

definition handleSubmit_settled :: "outcome \<Rightarrow> component \<Rightarrow> component" where
  "handleSubmit_settled r w =
     (case r of
        Resolved st \<Rightarrow>
          if st = 200
          then w\<lparr>status := Success, formData := emptyForm,
                 timers := timers w @ [(5000, SetIdle)]\<rparr>
          else w
      | Rejected err \<Rightarrow>
          w\<lparr>console := console w @ [err], status := Error,
            errorMessage := deliveryFailedMessage,
            timers := timers w @ [(5000, SetIdleClearError)]\<rparr>)"

text \<open>
  The whole handler, with the settlement of each call given by \<open>deliver\<close> and nothing
  else happening while it waits.
\<close>

definition handleSubmit ::
  "env \<Rightarrow> jsstring \<Rightarrow> (call \<Rightarrow> outcome) \<Rightarrow> component \<Rightarrow> component" where
  "handleSubmit e now deliver w =
     (case handleSubmit_sync e now w of
        (w', None) \<Rightarrow> w'
      | (w', Some c) \<Rightarrow> handleSubmit_settled (deliver c) w')"

section \<open>Timers and the rendered controls\<close>

definition runCallback :: "callback \<Rightarrow> component \<Rightarrow> component" where
  "runCallback cb w =
     (case cb of
        SetIdle \<Rightarrow> w\<lparr>status := Idle\<rparr>
      | SetIdleClearError \<Rightarrow> w\<lparr>status := Idle, errorMessage := []\<rparr>)"

text \<open>
  A \<open>setTimeout\<close> timer fires once: the \<open>i\<close>-th pending timer leaves the list and
  its callback runs. There is nothing to fire at an index past the list.
\<close>

definition fireTimer :: "nat \<Rightarrow> component \<Rightarrow> component" where
  "fireTimer i w =
     (if i < length (timers w)
      then runCallback (snd (timers w ! i)) (w\<lparr>timers := take i (timers w) @ drop (Suc i) (timers w)\<rparr>)
      else w)"


section \<open>Scenario inputs\<close>

definition env0 :: env where
  "env0 = \<lparr>PUBLIC_EMAILJS_PUBLIC_KEY = Some (js ''key''),
     PUBLIC_EMAILJS_SERVICE_ID = Some (js ''service''),
     PUBLIC_EMAILJS_TEMPLATE_ID = Some (js ''template'')\<rparr>"

definition now0 :: jsstring where
  "now0 = js ''03/11/2026 10:00:00''"

definition jane :: "jsstring \<Rightarrow> jsstring \<Rightarrow> component" where
  "jane ph em = initial\<lparr>formData := \<lparr>firstname = js ''Jane'', lastname = js ''Doe'',
     email = em, phone = ph, service = js ''Autre'', message = [], extra = []\<rparr>\<rparr>"


section \<open>The stylesheet injection\<close>

text \<open>
  The part of the page that the module's last statement reads and writes: an element has
  a local name, an \<open>id\<close>, a text and children; a document has the children of its
  \<open>head\<close> and its other elements.
\<close>

datatype element = Element jsstring jsstring jsstring "element list"

record document =
  headChildren :: "element list"
  elsewhere :: "element list"

fun hasId :: "jsstring \<Rightarrow> element \<Rightarrow> bool" where
  "hasId i (Element t j x cs) = (j = i \<or> list_ex (hasId i) cs)"

text \<open>Whether \<open>document.getElementById(i)\<close> finds an element.\<close>

definition hasElementById :: "jsstring \<Rightarrow> document \<Rightarrow> bool" where
  "hasElementById i d = (list_ex (hasId i) (headChildren d) \<or> list_ex (hasId i) (elsewhere d))"

text \<open>The number of \<open>style\<close> elements whose \<open>id\<close> is \<open>i\<close>.\<close>

fun countStyles :: "jsstring \<Rightarrow> element \<Rightarrow> nat" where
  "countStyles i (Element t j x cs) =
     (if t = js ''style'' \<and> j = i then 1 else 0) + sum_list (map (countStyles i) cs)"

definition countStylesDoc :: "jsstring \<Rightarrow> document \<Rightarrow> nat" where
  "countStylesDoc i d =
     sum_list (map (countStyles i) (headChildren d)) + sum_list (map (countStyles i) (elsewhere d))"

definition marker :: jsstring where
  "marker = js ''contact-form-styles''"

text \<open>
  The statement that ends the module; \<open>styles\<close> is the text of the style sheet. The page
  is \<open>None\<close> where there is no \<open>window\<close> (\<open>typeof window === 'undefined'\<close>), and
  then nothing is read or written.
\<close>

definition injectStyles :: "jsstring \<Rightarrow> document option \<Rightarrow> document option" where
  "injectStyles styles page =
     (case page of
        None \<Rightarrow> None
      | Some d \<Rightarrow>
          if \<not> hasElementById marker d
          then Some (d\<lparr>headChildren := headChildren d @ [Element (js ''style'') marker styles []]\<rparr>)
          else Some d)"

definition pageWithDiv :: document where
  "pageWithDiv = \<lparr>headChildren = [], elsewhere = [Element (js ''div'') marker [] []]\<rparr>"

definition pageWithTwo :: document where
  "pageWithTwo = \<lparr>headChildren = [Element (js ''style'') marker [] [],
     Element (js ''style'') marker [] []], elsewhere = []\<rparr>"

definition emptyPage :: document where
  "emptyPage = \<lparr>headChildren = [], elsewhere = []\<rparr>"

section \<open>Evaluating the patterns\<close>

lemmas class_defs = digit_def whitespace_def plusSign_def openParen_def closeParen_def
  atSign_def dot_def separator_def notSpaceNorAt_def

lemma phone_spaced_fails: "\<not> test phoneRegex (js ''+212 600 000 000'')"
  by (simp add: test_def phoneRegex_def js_def class_defs)

lemma phone_compact_ok: "test phoneRegex (js ''+212 600 000000'')"
  by (simp add: test_def phoneRegex_def js_def class_defs)

lemma phone_123_fails: "\<not> test phoneRegex (js ''123'')"
  by (simp add: test_def phoneRegex_def js_def class_defs)

lemma email_jane_ok: "test emailRegex (js ''jane@example.com'')"
  by (simp add: test_def emailRegex_def js_def class_defs)

lemma email_plain_fails: "\<not> test emailRegex (js ''not-an-email'')"
  by (simp add: test_def emailRegex_def js_def class_defs)

section \<open>What handleSubmit does on each path\<close>

lemma handleSubmit_phone_invalid:
  assumes "\<not> test phoneRegex (phone (formData w))"
  shows "handleSubmit e now deliver w = w\<lparr>errorMessage := phoneInvalidMessage, status := Error\<rparr>"
  using assms by (simp add: handleSubmit_def handleSubmit_sync_def validateForm_def)

lemma handleSubmit_email_invalid:
  assumes "test phoneRegex (phone (formData w))" and "\<not> test emailRegex (email (formData w))"
  shows "handleSubmit e now deliver w = w\<lparr>errorMessage := emailInvalidMessage, status := Error\<rparr>"
  using assms by (simp add: handleSubmit_def handleSubmit_sync_def validateForm_def)

lemma handleSubmit_valid:
  assumes "test phoneRegex (phone (formData w))" and "test emailRegex (email (formData w))"
  shows "handleSubmit e now deliver w =
           handleSubmit_settled (deliver (mkCall e now (formData w)))
             (w\<lparr>errorMessage := [], status := Sending,
                sent := sent w @ [mkCall e now (formData w)]\<rparr>)"
  using assms by (simp add: handleSubmit_def handleSubmit_sync_def validateForm_def Let_def)

lemma handleSubmit_settled_sent: "sent (handleSubmit_settled r w) = sent w"
  by (simp add: handleSubmit_settled_def split: outcome.split)

lemma handleSubmit_rejected:
  assumes "test phoneRegex (phone (formData w))" and "test emailRegex (email (formData w))"
    and "deliver (mkCall e now (formData w)) = Rejected err"
  shows "handleSubmit e now deliver w =
           w\<lparr>errorMessage := deliveryFailedMessage, status := Error,
             sent := sent w @ [mkCall e now (formData w)],
             console := console w @ [err],
             timers := timers w @ [(5000, SetIdleClearError)]\<rparr>"
  using assms by (simp add: handleSubmit_valid handleSubmit_settled_def)

lemma handleSubmit_acknowledged:
  assumes "test phoneRegex (phone (formData w))" and "test emailRegex (email (formData w))"
    and "deliver (mkCall e now (formData w)) = Resolved 200"
  shows "handleSubmit e now deliver w =
           w\<lparr>errorMessage := [], status := Success, formData := emptyForm,
             sent := sent w @ [mkCall e now (formData w)],
             timers := timers w @ [(5000, SetIdle)]\<rparr>"
  using assms by (simp add: handleSubmit_valid handleSubmit_settled_def)


lemma fireTimer_last:
  "fireTimer (length ts) (w\<lparr>timers := ts @ [(d, cb)]\<rparr>) = runCallback cb (w\<lparr>timers := ts\<rparr>)"
  by (simp add: fireTimer_def)

lemma jane_phone [simp]: "phone (formData (jane ph em)) = ph"
  by (simp add: jane_def)

lemma jane_email [simp]: "email (formData (jane ph em)) = em"
  by (simp add: jane_def)

lemma jane_rest [simp]:
  "sent (jane ph em) = []" "timers (jane ph em) = []" "status (jane ph em) = Idle"
  "errorMessage (jane ph em) = []" "console (jane ph em) = []"
  by (simp_all add: jane_def initial_def)

section \<open>Validation failures\<close>

text \<open>
  C2. Whatever the state, when the phone value fails the phone pattern, handleSubmit ends
  with status error and the message 'Numero de telephone invalide' (with its accents), it
  stops before the await with no call to wait for, and the log of emailjs.send
  invocations is what it was: the delivery adapter is not invoked.
\<close>

theorem C2_phone_invalid:
  assumes "\<not> test phoneRegex (phone (formData w))"
  shows "status (handleSubmit e now deliver w) = Error
       \<and> errorMessage (handleSubmit e now deliver w) = phoneInvalidMessage
       \<and> sent (handleSubmit e now deliver w) = sent w
       \<and> snd (handleSubmit_sync e now w) = None"
  using assms
  by (simp add: handleSubmit_phone_invalid handleSubmit_sync_def validateForm_def)

theorem C2_phone_invalid_witness:
  "\<not> test phoneRegex (phone (formData (jane (js ''123'') (js ''jane@example.com''))))
   \<and> status (handleSubmit env0 now0 (\<lambda>c. Resolved 200)
        (jane (js ''123'') (js ''jane@example.com''))) = Error
   \<and> errorMessage (handleSubmit env0 now0 (\<lambda>c. Resolved 200)
        (jane (js ''123'') (js ''jane@example.com''))) = phoneInvalidMessage
   \<and> sent (handleSubmit env0 now0 (\<lambda>c. Resolved 200)
        (jane (js ''123'') (js ''jane@example.com''))) = []"
  using C2_phone_invalid [of "jane (js ''123'') (js ''jane@example.com'')" env0 now0
      "\<lambda>c. Resolved 200"] phone_123_fails
  by simp

text \<open>
  C3. When the phone value passes the phone pattern and the email value fails the email
  pattern, handleSubmit ends with status error and the message 'Email invalide', with no
  call to wait for and no emailjs.send invocation. The phone check comes first and only
  the first failure is reported: when both values fail, the message is the phone one,
  not the email one.
\<close>

theorem C3_email_invalid:
  "(test phoneRegex (phone (formData w)) \<and> \<not> test emailRegex (email (formData w)) \<longrightarrow>
      status (handleSubmit e now deliver w) = Error
    \<and> errorMessage (handleSubmit e now deliver w) = emailInvalidMessage
    \<and> sent (handleSubmit e now deliver w) = sent w
    \<and> snd (handleSubmit_sync e now w) = None)
   \<and> (\<not> test phoneRegex (phone (formData w)) \<and> \<not> test emailRegex (email (formData w)) \<longrightarrow>
      errorMessage (handleSubmit e now deliver w) = phoneInvalidMessage
    \<and> errorMessage (handleSubmit e now deliver w) \<noteq> emailInvalidMessage)"
proof -
  have differ: "phoneInvalidMessage \<noteq> emailInvalidMessage"
    by (simp add: phoneInvalidMessage_def emailInvalidMessage_def js_def)
  show ?thesis
    using differ
    by (simp add: handleSubmit_phone_invalid handleSubmit_email_invalid
        handleSubmit_sync_def validateForm_def)
qed

theorem C3_email_invalid_witness:
  "(test phoneRegex (js ''+212 600 000000'') \<and> \<not> test emailRegex (js ''not-an-email'')
    \<and> status (handleSubmit env0 now0 (\<lambda>c. Resolved 200)
         (jane (js ''+212 600 000000'') (js ''not-an-email''))) = Error
    \<and> errorMessage (handleSubmit env0 now0 (\<lambda>c. Resolved 200)
         (jane (js ''+212 600 000000'') (js ''not-an-email''))) = emailInvalidMessage
    \<and> sent (handleSubmit env0 now0 (\<lambda>c. Resolved 200)
         (jane (js ''+212 600 000000'') (js ''not-an-email''))) = [])
   \<and> (\<not> test phoneRegex (js ''123'') \<and> \<not> test emailRegex (js ''not-an-email'')
    \<and> errorMessage (handleSubmit env0 now0 (\<lambda>c. Resolved 200)
         (jane (js ''123'') (js ''not-an-email''))) = phoneInvalidMessage)"
  using C3_email_invalid [of "jane (js ''+212 600 000000'') (js ''not-an-email'')" env0 now0
      "\<lambda>c. Resolved 200"]
    C3_email_invalid [of "jane (js ''123'') (js ''not-an-email'')" env0 now0
      "\<lambda>c. Resolved 200"]
    phone_compact_ok phone_123_fails email_plain_fails
  by simp

section \<open>The scenario of the spec\<close>

text \<open>
  C1, as the code has it. With the phone written '+212 600 000 000' the phone check
  fails, because the pattern wants its last group to be 4 to 6 digits in a row: handleSubmit
  sets status error with the phone message and issues no delivery call. With the phone written
  '+212 600 000000' and the other fields as in the scenario, both checks pass and
  handleSubmit issues exactly one delivery call, whose reply_to is 'jane@example.com'.
\<close>

theorem C1_scenario_amended:
  "\<not> test phoneRegex (js ''+212 600 000 000'')
   \<and> sent (handleSubmit e now deliver
        (jane (js ''+212 600 000 000'') (js ''jane@example.com''))) = []
   \<and> status (handleSubmit e now deliver
        (jane (js ''+212 600 000 000'') (js ''jane@example.com''))) = Error
   \<and> errorMessage (handleSubmit e now deliver
        (jane (js ''+212 600 000 000'') (js ''jane@example.com''))) = phoneInvalidMessage
   \<and> test phoneRegex (js ''+212 600 000000'')
   \<and> test emailRegex (js ''jane@example.com'')
   \<and> fst (validateForm (jane (js ''+212 600 000000'') (js ''jane@example.com'')))
   \<and> sent (handleSubmit e now deliver
        (jane (js ''+212 600 000000'') (js ''jane@example.com'')))
       = [mkCall e now (formData (jane (js ''+212 600 000000'') (js ''jane@example.com'')))]
   \<and> map_of (params (mkCall e now
        (formData (jane (js ''+212 600 000000'') (js ''jane@example.com'')))))
        (js ''reply_to'') = Some (js ''jane@example.com'')"
proof -
  have reply: "map_of (params (mkCall e now fd)) (js ''reply_to'') = Some (email fd)" for fd
    by (simp add: mkCall_def templateParams_def update_conv')
  show ?thesis
    using phone_spaced_fails phone_compact_ok email_jane_ok reply
    by (simp add: handleSubmit_phone_invalid handleSubmit_valid handleSubmit_settled_sent
        validateForm_def)
qed

text \<open>
  The scenario as the spec gives it: the validator rejects the phone value, and no
  delivery call is issued.
\<close>

theorem C1_scenario_counterexample:
  "\<not> test phoneRegex (phone (formData (jane (js ''+212 600 000 000'') (js ''jane@example.com''))))
   \<and> \<not> fst (validateForm (jane (js ''+212 600 000 000'') (js ''jane@example.com'')))
   \<and> sent (handleSubmit env0 now0 (\<lambda>c. Resolved 200)
        (jane (js ''+212 600 000 000'') (js ''jane@example.com''))) = []
   \<and> status (handleSubmit env0 now0 (\<lambda>c. Resolved 200)
        (jane (js ''+212 600 000 000'') (js ''jane@example.com''))) = Error"
  using phone_spaced_fails
  by (simp add: handleSubmit_phone_invalid validateForm_def)

section \<open>The return to idle\<close>

text \<open>
  C4 at a validation failure: the phone value '123' fails the phone pattern, handleSubmit
  sets status error with the phone message and returns, and no timer is pending
  afterwards, where the claim wants a single-shot return to idle scheduled after 5 time
  units. The other error path does schedule it: with valid fields and a rejected
  delivery call, one timer of 5000 milliseconds is pending, and its firing sets status
  idle.
\<close>

theorem C4_validation_failure_no_timer:
  "status (handleSubmit env0 now0 (\<lambda>c. Resolved 200)
      (jane (js ''123'') (js ''jane@example.com''))) = Error
   \<and> errorMessage (handleSubmit env0 now0 (\<lambda>c. Resolved 200)
      (jane (js ''123'') (js ''jane@example.com''))) = phoneInvalidMessage
   \<and> timers (handleSubmit env0 now0 (\<lambda>c. Resolved 200)
      (jane (js ''123'') (js ''jane@example.com''))) = []
   \<and> status (handleSubmit env0 now0 (\<lambda>c. Rejected (js ''Failed to fetch''))
      (jane (js ''+212 600 000000'') (js ''jane@example.com''))) = Error
   \<and> timers (handleSubmit env0 now0 (\<lambda>c. Rejected (js ''Failed to fetch''))
      (jane (js ''+212 600 000000'') (js ''jane@example.com''))) = [(5000, SetIdleClearError)]
   \<and> status (fireTimer 0 (handleSubmit env0 now0 (\<lambda>c. Rejected (js ''Failed to fetch''))
      (jane (js ''+212 600 000000'') (js ''jane@example.com'')))) = Idle"
  using phone_123_fails phone_compact_ok email_jane_ok
  by (simp add: handleSubmit_phone_invalid handleSubmit_rejected fireTimer_def runCallback_def)

section \<open>The settlement of the delivery call\<close>

text \<open>
  C5 at a response that is not 200: the fields pass both checks and emailjs.send
  resolves with status 202. handleSubmit leaves status at sending, sets no message,
  writes nothing to the console and schedules no timer, where the claim wants status
  error, the retry message and the return to idle.
\<close>

theorem C5_resolved_202:
  "status (handleSubmit env0 now0 (\<lambda>c. Resolved 202)
      (jane (js ''+212 600 000000'') (js ''jane@example.com''))) = Sending
   \<and> errorMessage (handleSubmit env0 now0 (\<lambda>c. Resolved 202)
      (jane (js ''+212 600 000000'') (js ''jane@example.com''))) = []
   \<and> timers (handleSubmit env0 now0 (\<lambda>c. Resolved 202)
      (jane (js ''+212 600 000000'') (js ''jane@example.com''))) = []
   \<and> console (handleSubmit env0 now0 (\<lambda>c. Resolved 202)
      (jane (js ''+212 600 000000'') (js ''jane@example.com''))) = []"
  using phone_compact_ok email_jane_ok
  by (simp add: handleSubmit_valid handleSubmit_settled_def)

text \<open>
  C6. When both checks pass and emailjs.send resolves with status 200, handleSubmit sets
  each of the six fields to the empty string, sets status success and schedules one timer
  of 5000 milliseconds (5 seconds) whose callback, firing once, sets status idle.
\<close>

theorem C6_acknowledged:
  assumes "test phoneRegex (phone (formData w))" and "test emailRegex (email (formData w))"
    and "deliver (mkCall e now (formData w)) = Resolved 200"
  shows "firstname (formData (handleSubmit e now deliver w)) = []
       \<and> lastname (formData (handleSubmit e now deliver w)) = []
       \<and> email (formData (handleSubmit e now deliver w)) = []
       \<and> phone (formData (handleSubmit e now deliver w)) = []
       \<and> service (formData (handleSubmit e now deliver w)) = []
       \<and> message (formData (handleSubmit e now deliver w)) = []
       \<and> formData (handleSubmit e now deliver w) = emptyForm
       \<and> status (handleSubmit e now deliver w) = Success
       \<and> timers (handleSubmit e now deliver w) = timers w @ [(5000, SetIdle)]
       \<and> status (fireTimer (length (timers w)) (handleSubmit e now deliver w)) = Idle
       \<and> timers (fireTimer (length (timers w)) (handleSubmit e now deliver w)) = timers w"
  using assms
  by (simp add: handleSubmit_acknowledged emptyForm_def fireTimer_def runCallback_def)

theorem C6_acknowledged_witness:
  "test phoneRegex (js ''+212 600 000000'') \<and> test emailRegex (js ''jane@example.com'')
   \<and> formData (handleSubmit env0 now0 (\<lambda>c. Resolved 200)
        (jane (js ''+212 600 000000'') (js ''jane@example.com''))) = emptyForm
   \<and> status (handleSubmit env0 now0 (\<lambda>c. Resolved 200)
        (jane (js ''+212 600 000000'') (js ''jane@example.com''))) = Success
   \<and> timers (handleSubmit env0 now0 (\<lambda>c. Resolved 200)
        (jane (js ''+212 600 000000'') (js ''jane@example.com''))) = [(5000, SetIdle)]
   \<and> status (fireTimer 0 (handleSubmit env0 now0 (\<lambda>c. Resolved 200)
        (jane (js ''+212 600 000000'') (js ''jane@example.com'')))) = Idle"
  using C6_acknowledged [of "jane (js ''+212 600 000000'') (js ''jane@example.com'')"
      "\<lambda>c. Resolved 200" env0 now0] phone_compact_ok email_jane_ok
  by simp







section \<open>One call for one submission\<close>




section \<open>The field store\<close>

text \<open>
  C8. For every state and every new value, handleChange with the name of one of the six
  fields gives the state in which that field has the new value and everything else (the
  other five fields, the other properties, status, message, calls, timers) is as before.
  It accepts any value: nothing is validated.
\<close>

theorem C8_handleChange_one_field:
  "handleChange (js ''firstname'') v w = w\<lparr>formData := (formData w)\<lparr>firstname := v\<rparr>\<rparr>
   \<and> handleChange (js ''lastname'') v w = w\<lparr>formData := (formData w)\<lparr>lastname := v\<rparr>\<rparr>
   \<and> handleChange (js ''email'') v w = w\<lparr>formData := (formData w)\<lparr>email := v\<rparr>\<rparr>
   \<and> handleChange (js ''phone'') v w = w\<lparr>formData := (formData w)\<lparr>phone := v\<rparr>\<rparr>
   \<and> handleChange (js ''service'') v w = w\<lparr>formData := (formData w)\<lparr>service := v\<rparr>\<rparr>
   \<and> handleChange (js ''message'') v w = w\<lparr>formData := (formData w)\<lparr>message := v\<rparr>\<rparr>"
  by (simp add: handleChange_def setField_def js_def)

section \<open>The stylesheet injection, twice\<close>

lemma countStyles_without_id: "\<not> hasId i el \<Longrightarrow> countStyles i el = 0"
proof (induction el)
  case (Element t j x cs)
  from Element.prems have "j \<noteq> i" and "\<forall>c \<in> set cs. \<not> hasId i c"
    by (simp_all add: list_ex_iff)
  with Element.IH have "\<forall>c \<in> set cs. countStyles i c = 0"
    by blast
  then have "sum_list (map (countStyles i) cs) = 0"
    by simp
  with \<open>j \<noteq> i\<close> show ?case
    by simp
qed

lemma countStylesDoc_without_id:
  assumes "\<not> hasElementById i d"
  shows "countStylesDoc i d = 0"
proof -
  from assms have "\<forall>c \<in> set (headChildren d). countStyles i c = 0"
    and "\<forall>c \<in> set (elsewhere d). countStyles i c = 0"
    by (simp_all add: hasElementById_def list_ex_iff countStyles_without_id)
  then show ?thesis
    by (simp add: countStylesDoc_def)
qed

lemma marked_after_injection:
  "hasElementById marker (d\<lparr>headChildren := headChildren d @ [Element t marker x cs]\<rparr>)"
  by (simp add: hasElementById_def)

text \<open>
  C9, as the code has it. From any page, with or without a window, running the injection
  twice gives the same page as running it once. When the document has no element with
  the id 'contact-form-styles' before, there is exactly one style element with that id
  after one run and after two.
\<close>

theorem C9_injection_amended:
  "injectStyles styles (injectStyles styles page) = injectStyles styles page
   \<and> (\<not> hasElementById marker d \<longrightarrow>
        map_option (countStylesDoc marker) (injectStyles styles (Some d)) = Some 1
      \<and> map_option (countStylesDoc marker)
          (injectStyles styles (injectStyles styles (Some d))) = Some 1)"
proof -
  have idem: "injectStyles styles (injectStyles styles p) = injectStyles styles p" for p
    by (cases p) (simp_all add: injectStyles_def marked_after_injection)
  have one: "map_option (countStylesDoc marker) (injectStyles styles (Some d)) = Some 1"
    if "\<not> hasElementById marker d"
  proof -
    from that have "countStylesDoc marker d = 0"
      by (rule countStylesDoc_without_id)
    with that show ?thesis
      by (simp add: injectStyles_def countStylesDoc_def)
  qed
  show ?thesis
    using one by (simp add: idem)
qed

theorem C9_injection_witness:
  "\<not> hasElementById marker emptyPage
   \<and> map_option (countStylesDoc marker) (injectStyles (js ''.contact-form {}'') (Some emptyPage))
       = Some 1
   \<and> map_option (countStylesDoc marker)
        (injectStyles (js ''.contact-form {}'')
          (injectStyles (js ''.contact-form {}'') (Some emptyPage))) = Some 1
   \<and> injectStyles (js ''.contact-form {}'')
        (injectStyles (js ''.contact-form {}'') (Some emptyPage))
       = injectStyles (js ''.contact-form {}'') (Some emptyPage)"
proof -
  have clean: "\<not> hasElementById marker emptyPage"
    by (simp add: hasElementById_def emptyPage_def)
  note th = C9_injection_amended [where styles = "js ''.contact-form {}''"
      and page = "Some emptyPage" and d = emptyPage]
  from th clean show ?thesis
    by blast
qed

text \<open>
  Two pages on which two runs of the injection do not leave exactly one style element
  with the id: one that has a \<open>div\<close> with that id (the injection is skipped and no style
  element has the id), one that already has two style elements with it (both stay).
\<close>

theorem C9_injection_counterexample:
  "map_option (countStylesDoc marker)
     (injectStyles (js ''.contact-form {}'')
       (injectStyles (js ''.contact-form {}'') (Some pageWithDiv))) = Some 0
   \<and> map_option (countStylesDoc marker)
     (injectStyles (js ''.contact-form {}'')
       (injectStyles (js ''.contact-form {}'') (Some pageWithTwo))) = Some 2"
  by (simp add: injectStyles_def hasElementById_def countStylesDoc_def pageWithDiv_def
      pageWithTwo_def marker_def js_def)

end
